theory Spec2Isabelle
  imports Main "HOL-Library.Word"
begin

section \<open>The data reader task of the Zap firmware\<close>

text \<open>
  A shallow embedding of \<^verbatim>\<open>src/data/data_reader_task.cpp\<close>: the class
  \<^verbatim>\<open>DataReaderTask\<close> reads frames from a P1 meter, decodes them, packages each
  reading and pushes the package to a FreeRTOS queue; when no frame was decoded for
  30 seconds it rotates the meter's serial configuration.

  The object's fields are the record \<open>DataReaderTask\<close>. Everything the methods touch
  outside the object (the millisecond clock, the FreeRTOS queues and tasks, the static
  class \<^verbatim>\<open>Debug\<close>, the log) is the record \<open>World\<close>. A method is a function from
  a pair of the two to the updated pair. What the collaborators answer (the decoders,
  the JWT packaging, the meter's \<^verbatim>\<open>begin\<close>, the task creation) is a parameter, the
  record \<open>Env\<close>: the methods are modelled for every answer they can give.
\<close>

subsection \<open>Machine types\<close>

text \<open>
  \<^verbatim>\<open>millis()\<close> returns an \<^verbatim>\<open>unsigned long\<close>, 32 bits on the ESP32 this
  firmware runs on: clock values are 32-bit words and their subtraction wraps around.
\<close>

type_synonym millis_t = "32 word"
type_synonym uint32_t = "32 word"
type_synonym uint8_t = "8 word"

type_synonym QueueHandle_t = nat
type_synonym TaskHandle_t = nat

subsection \<open>Logging\<close>

text \<open>
  The macros \<^verbatim>\<open>LOG_TE\<close>, \<^verbatim>\<open>LOG_TW\<close>, \<^verbatim>\<open>LOG_TI\<close> and \<^verbatim>\<open>LOG_TD\<close>
  (\<^verbatim>\<open>zap_log.h\<close>) report a format string and its arguments at the levels error,
  warning, info and debug. The model keeps the list of the calls made, oldest first.
\<close>

datatype LogLevel = LOG_E | LOG_W | LOG_I | LOG_D

datatype LogArg = ArgNat nat | ArgStr string

type_synonym LogEntry = "LogLevel \<times> string \<times> LogArg list"

subsection \<open>Frames, readings, packages\<close>

text \<open>
  \<^verbatim>\<open>IFrameData::Type\<close>: the three discriminants the \<^verbatim>\<open>switch\<close> of
  \<^verbatim>\<open>handleFrame\<close> names, and every other value of the enumeration, which the
  \<^verbatim>\<open>default\<close> branch takes.
\<close>

datatype FrameType =
    FRAME_TYPE_HDLC
  | FRAME_TYPE_ASCII
  | FRAME_TYPE_MBUS
  | FRAME_TYPE_OTHER nat

record IFrameData =
  getFrameTypeId :: FrameType
  frameBytes :: "uint8_t list"

definition getFrameSize :: "IFrameData \<Rightarrow> nat" where
  "getFrameSize frame = length (frameBytes frame)"

text \<open>\<^verbatim>\<open>getFrameByte\<close> is only called with an index below \<^verbatim>\<open>getFrameSize\<close>.\<close>

definition getFrameByte :: "IFrameData \<Rightarrow> nat \<Rightarrow> uint8_t" where
  "getFrameByte frame i = frameBytes frame ! i"

text \<open>
  Modelled from the spec: the class \<^verbatim>\<open>P1Data\<close> is not under src/. A Reading is
  a ``timestamped set of meter measurements'', whose timestamp field is ``set at
  acceptance time''.
\<close>

record P1Data =
  measurements :: "string list"
  timeStamp :: millis_t

text \<open>\<^verbatim>\<open>DataPackage\<close>: the character buffer \<^verbatim>\<open>data\<close> and \<^verbatim>\<open>timestamp\<close>.\<close>

record DataPackage =
  data :: string
  timestamp :: millis_t

subsection \<open>The world outside the object\<close>

text \<open>
  Modelled from the spec: the FreeRTOS queue is not under src/. The Delivery Queue is
  a ``bounded ordered sequence of Delivery Packages, capacity N fixed at construction'':
  \<open>uxLength\<close> is N, \<open>messages\<close> the packages waiting, oldest first.
\<close>

record Queue =
  uxLength :: nat
  messages :: "DataPackage list"

text \<open>
  Modelled from the spec: the static class \<^verbatim>\<open>Debug\<close> is not under src/. The
  Diagnostics boundary has ``counters for successful frames, failed frames, and a
  snapshot of the most recent faulty frame's raw bytes, plus the currently active
  configuration index''.
\<close>

record Debug =
  frames :: nat
  failedFrames :: nat
  faultyFrameData :: "uint8_t list"
  p1MeterConfigIndex :: nat

record World =
  now :: millis_t
  queues :: "QueueHandle_t \<Rightarrow> Queue"
  debug :: Debug
  logs :: "LogEntry list"
  tasksCreated :: nat
  tasksDeleted :: "TaskHandle_t option list"

definition millis :: "World \<Rightarrow> millis_t" where
  "millis w = now w"

text \<open>Time passing: \<open>d\<close> milliseconds later, nothing else changed.\<close>

definition elapse :: "millis_t \<Rightarrow> World \<Rightarrow> World" where
  "elapse d w = w\<lparr>now := now w + d\<rparr>"

definition vTaskDelay :: "millis_t \<Rightarrow> World \<Rightarrow> World" where
  "vTaskDelay ms w = elapse ms w"

definition LOG :: "LogLevel \<Rightarrow> string \<Rightarrow> LogArg list \<Rightarrow> World \<Rightarrow> World" where
  "LOG lvl fmt args w = w\<lparr>logs := logs w @ [(lvl, fmt, args)]\<rparr>"

subsubsection \<open>FreeRTOS queues\<close>

text \<open>
  The three queue calls of \<^verbatim>\<open>enqueueData\<close>, with no other task touching the queue
  meanwhile: \<^verbatim>\<open>xQueueReceive\<close> with a wait of 0 ticks takes the oldest message or
  fails on an empty queue; \<^verbatim>\<open>xQueueSendToBack\<close> appends when there is space and
  otherwise fails once its wait is over. FreeRTOS keeps a queue within its length; the
  theorems below ask it of the queue they start from and prove it of the queue they end
  with.
\<close>

definition uxQueueSpacesAvailable :: "QueueHandle_t \<Rightarrow> World \<Rightarrow> nat" where
  "uxQueueSpacesAvailable h w = uxLength (queues w h) - length (messages (queues w h))"

definition xQueueReceive :: "QueueHandle_t \<Rightarrow> World \<Rightarrow> DataPackage option \<times> World" where
  "xQueueReceive h w =
     (case messages (queues w h) of
        [] \<Rightarrow> (None, w)
      | m # ms \<Rightarrow> (Some m, w\<lparr>queues := (queues w)(h := (queues w h)\<lparr>messages := ms\<rparr>)\<rparr>))"

definition xQueueSendToBack :: "QueueHandle_t \<Rightarrow> DataPackage \<Rightarrow> World \<Rightarrow> bool \<times> World" where
  "xQueueSendToBack h item w =
     (if length (messages (queues w h)) < uxLength (queues w h)
      then (True, w\<lparr>queues := (queues w)(h := (queues w h)\<lparr>messages := messages (queues w h) @ [item]\<rparr>)\<rparr>)
      else (False, w))"

subsubsection \<open>FreeRTOS tasks\<close>

text \<open>
  \<^verbatim>\<open>xTaskCreatePinnedToCore\<close> writes the new task's handle on success and nothing
  on failure. \<^verbatim>\<open>vTaskDelete\<close> records its argument (\<open>None\<close> is \<^verbatim>\<open>NULL\<close>, the
  calling task).
\<close>

definition xTaskCreatePinnedToCore :: "bool \<Rightarrow> World \<Rightarrow> TaskHandle_t option \<times> World" where
  "xTaskCreatePinnedToCore ok w =
     (if ok then (Some (tasksCreated w), w\<lparr>tasksCreated := Suc (tasksCreated w)\<rparr>)
      else (None, w))"

definition vTaskDelete :: "TaskHandle_t option \<Rightarrow> World \<Rightarrow> World" where
  "vTaskDelete h w = w\<lparr>tasksDeleted := tasksDeleted w @ [h]\<rparr>"

subsubsection \<open>Debug\<close>

definition Debug_addFrame :: "World \<Rightarrow> World" where
  "Debug_addFrame w = w\<lparr>debug := (debug w)\<lparr>frames := Suc (frames (debug w))\<rparr>\<rparr>"

definition Debug_addFailedFrame :: "World \<Rightarrow> World" where
  "Debug_addFailedFrame w = w\<lparr>debug := (debug w)\<lparr>failedFrames := Suc (failedFrames (debug w))\<rparr>\<rparr>"

definition Debug_clearFaultyFrameData :: "World \<Rightarrow> World" where
  "Debug_clearFaultyFrameData w = w\<lparr>debug := (debug w)\<lparr>faultyFrameData := []\<rparr>\<rparr>"

definition Debug_addFaultyFrameData :: "uint8_t \<Rightarrow> World \<Rightarrow> World" where
  "Debug_addFaultyFrameData b w =
     w\<lparr>debug := (debug w)\<lparr>faultyFrameData := faultyFrameData (debug w) @ [b]\<rparr>\<rparr>"

definition Debug_setP1MeterConfigIndex :: "nat \<Rightarrow> World \<Rightarrow> World" where
  "Debug_setP1MeterConfigIndex ix w = w\<lparr>debug := (debug w)\<lparr>p1MeterConfigIndex := ix\<rparr>\<rparr>"

subsection \<open>The P1 meter\<close>

text \<open>
  Modelled from the spec: the class \<^verbatim>\<open>P1Meter\<close> is not under src/. The Frame
  Source boundary is ``\<^verbatim>\<open>configure(candidate) -> bool\<close>; \<^verbatim>\<open>getCandidate(index)\<close>;
  \<^verbatim>\<open>getCandidateCount()\<close>; \<^verbatim>\<open>poll()\<close> (drives callback invocation);
  \<^verbatim>\<open>setFrameCallback\<close>''. The record holds the candidate table, the configuration
  last passed to \<^verbatim>\<open>begin\<close> and whether the callback is registered; the only
  callback this file registers calls \<^verbatim>\<open>handleFrame\<close>.
\<close>

record P1MeterConfig =
  baudRate :: nat

record P1Meter =
  getNumConfigs :: nat
  getConfig :: "nat \<Rightarrow> P1MeterConfig"
  beginConfig :: "P1MeterConfig option"
  frameCallbackSet :: bool

subsection \<open>The collaborators' answers\<close>

text \<open>
  \<open>dlmsDecodeBuffer\<close> and \<open>asciiDecodeBuffer\<close>: \<^verbatim>\<open>decodeBuffer(frame, p1data)\<close> of the
  two decoders; \<open>Some d\<close> when it returns true having filled \<^verbatim>\<open>p1data\<close> with \<open>d\<close>.
  \<open>createP1JWTPayload\<close>: the value the function returns and the buffer it wrote.
  \<open>p1MeterBegin\<close>: what \<^verbatim>\<open>p1Meter.begin(config)\<close> returns. \<open>xTaskCreateOk\<close>:
  whether the task creation finds the memory it needs.
\<close>

record Env =
  dlmsDecodeBuffer :: "IFrameData \<Rightarrow> P1Data option"
  asciiDecodeBuffer :: "IFrameData \<Rightarrow> P1Data option"
  createP1JWTPayload :: "P1Data \<Rightarrow> bool \<times> string"
  p1MeterBegin :: "P1MeterConfig \<Rightarrow> bool"
  xTaskCreateOk :: bool

subsection \<open>The object\<close>

record DataReaderTask =
  taskHandle :: "TaskHandle_t option"
  stackSize :: uint32_t
  priority :: nat
  shouldRun :: bool
  p1Meter :: P1Meter
  p1DataQueue :: "QueueHandle_t option"
  readInterval :: uint32_t
  lastReadTime :: millis_t
  baudRateIx :: nat
  lastDecodedData :: P1Data

type_synonym State = "DataReaderTask \<times> World"

text \<open>The constructor; the two members it default-constructs are arguments.\<close>

definition newDataReaderTask :: "uint32_t \<Rightarrow> nat \<Rightarrow> P1Meter \<Rightarrow> P1Data \<Rightarrow> DataReaderTask" where
  "newDataReaderTask stack prio meter noData =
     \<lparr>taskHandle = None, stackSize = stack, priority = prio, shouldRun = False,
      p1Meter = meter, p1DataQueue = None, readInterval = 10000, lastReadTime = 0,
      baudRateIx = 0, lastDecodedData = noData\<rparr>"

subsection \<open>The methods\<close>

text \<open>\<^verbatim>\<open>DataReaderTask::begin\<close> (the name \<open>begin\<close> is taken in Isabelle).\<close>

definition begin_task :: "Env \<Rightarrow> QueueHandle_t option \<Rightarrow> State \<Rightarrow> State" where
  "begin_task E dataQueue s =
     (case s of (t, w) \<Rightarrow>
        if taskHandle t \<noteq> None then (t, w)
        else
          let cfg = getConfig (p1Meter t) (baudRateIx t);
              meter = (p1Meter t)\<lparr>frameCallbackSet := True, beginConfig := Some cfg\<rparr>;
              w1 = (if \<not> p1MeterBegin E cfg
                    then LOG LOG_E ''Failed to initialize P1 meter'' [] w else w);
              w2 = LOG LOG_I ''P1 meter initialized with baud rate %d'' [ArgNat (baudRate cfg)] w1;
              t1 = t\<lparr>p1Meter := meter, p1DataQueue := dataQueue, shouldRun := True\<rparr>;
              (h, w3) = xTaskCreatePinnedToCore (xTaskCreateOk E) w2;
              w4 = LOG LOG_I ''DataReaderTask started with stack size %d and priority %d''
                     [ArgNat (unat (stackSize t)), ArgNat (priority t)] w3
          in (t1\<lparr>taskHandle := h\<rparr>, w4))"

text \<open>\<^verbatim>\<open>DataReaderTask::stop\<close>.\<close>

definition stop :: "State \<Rightarrow> State" where
  "stop s =
     (case s of (t, w) \<Rightarrow>
        if taskHandle t = None then (t, w)
        else
          let t1 = t\<lparr>shouldRun := False\<rparr>;
              w1 = vTaskDelay 100 w
          in (case taskHandle t1 of
                None \<Rightarrow> (t1, w1)
              | Some h \<Rightarrow> (t1\<lparr>taskHandle := None\<rparr>, vTaskDelete (Some h) w1)))"


text \<open>
  \<^verbatim>\<open>DataReaderTask::enqueueData\<close>. Line 76 takes a true return of
  \<^verbatim>\<open>createP1JWTPayload\<close> for the failure to package.
\<close>

definition enqueueData :: "Env \<Rightarrow> P1Data \<Rightarrow> State \<Rightarrow> State" where
  "enqueueData E p1data s =
     (case s of (t, w) \<Rightarrow>
        (case p1DataQueue t of
           None \<Rightarrow> (t, w)
         | Some q \<Rightarrow>
             (case createP1JWTPayload E p1data of
                (failed, payload) \<Rightarrow>
                  if failed then (t, LOG LOG_E ''Failed to create JWT'' [] w)
                  else
                    let package = \<lparr>data = payload, timestamp = millis w\<rparr>;
                        w1 = (if uxQueueSpacesAvailable q w = 0
                              then LOG LOG_W ''Queue full, removed oldest item'' []
                                     (snd (xQueueReceive q w))
                              else w);
                        (result, w2) = xQueueSendToBack q package w1
                    in if result
                       then (t, LOG LOG_D ''Added data package to queue'' [] w2)
                       else (t, LOG LOG_E ''Failed to add data package to queue'' [] w2))))"

text \<open>
  Lines 115 to 143 of \<^verbatim>\<open>handleFrame\<close>: the \<^verbatim>\<open>switch\<close> over the frame's type.
  The result is \<open>Some p1data\<close> when \<^verbatim>\<open>isDecoded\<close> is true, \<open>None\<close> when it is false.
\<close>

definition decodeFrame :: "Env \<Rightarrow> IFrameData \<Rightarrow> World \<Rightarrow> P1Data option \<times> World" where
  "decodeFrame E frame w =
     (case getFrameTypeId frame of
        FRAME_TYPE_HDLC \<Rightarrow>
          (let w1 = LOG LOG_D ''DLMS frame detected'' [] w
           in case dlmsDecodeBuffer E frame of
                Some p1data \<Rightarrow> (Some p1data, LOG LOG_I ''DLMS data decoded successfully'' [] w1)
              | None \<Rightarrow> (None, w1))
      | FRAME_TYPE_ASCII \<Rightarrow>
          (let w1 = LOG LOG_D ''ASCII frame detected'' [] w
           in case asciiDecodeBuffer E frame of
                Some p1data \<Rightarrow> (Some p1data, LOG LOG_I ''ASCII data decoded successfully'' [] w1)
              | None \<Rightarrow> (None, w1))
      | FRAME_TYPE_MBUS \<Rightarrow> (None, LOG LOG_D ''M-Bus frame detected'' [] w)
      | FRAME_TYPE_OTHER _ \<Rightarrow> (None, LOG LOG_W ''Unknown frame type'' [] w))"

text \<open>Modelled from the spec: \<^verbatim>\<open>P1Data::setTimeStamp\<close> is not under src/.\<close>

definition setTimeStamp :: "World \<Rightarrow> P1Data \<Rightarrow> P1Data" where
  "setTimeStamp w p1data = p1data\<lparr>timeStamp := millis w\<rparr>"

text \<open>\<^verbatim>\<open>DataReaderTask::handleFrame\<close>.\<close>

definition handleFrame :: "Env \<Rightarrow> IFrameData \<Rightarrow> State \<Rightarrow> State" where
  "handleFrame E frame s =
     (case s of (t, w) \<Rightarrow>
        let frameSize = getFrameSize frame;
            (decoded, w1) = decodeFrame E frame w;
            w2 = LOG LOG_I ''Frame decoded %s''
                   [ArgStr (if decoded \<noteq> None then ''true'' else ''false'')] w1
        in (case decoded of
              Some p1data \<Rightarrow>
                let w3 = Debug_addFrame w2;
                    t1 = t\<lparr>lastReadTime := millis w3\<rparr>;
                    p1data' = setTimeStamp w3 p1data;
                    (t2, w4) = enqueueData E p1data' (t1, w3)
                in (t2\<lparr>lastDecodedData := p1data'\<rparr>, w4)
            | None \<Rightarrow>
                let w3 = Debug_addFailedFrame w2;
                    w4 = Debug_clearFaultyFrameData w3;
                    w5 = fold (\<lambda>i. Debug_addFaultyFrameData (getFrameByte frame i)) [0..<frameSize] w4
                in (t, LOG LOG_E ''Failed to decode P1 data frame'' [] w5)))"

text \<open>\<^verbatim>\<open>DataReaderTask::rotateP1MeterBaudRate\<close>.\<close>

definition rotateP1MeterBaudRate :: "Env \<Rightarrow> State \<Rightarrow> State" where
  "rotateP1MeterBaudRate E s =
     (case s of (t, w) \<Rightarrow>
        let (t1, w1) =
              (if getNumConfigs (p1Meter t) > 1
               then
                 let ix = (baudRateIx t + 1) mod getNumConfigs (p1Meter t);
                     w' = Debug_setP1MeterConfigIndex ix w;
                     w'' = LOG LOG_D ''Rotating P1 meter condfig to %d'' [ArgNat ix] w';
                     cfg = getConfig (p1Meter t) ix;
                     meter = (p1Meter t)\<lparr>beginConfig := Some cfg\<rparr>;
                     w''' = (if \<not> p1MeterBegin E cfg
                             then LOG LOG_E ''Failed to reinitialize P1 meter with config ix: %d''
                                    [ArgNat ix] w''
                             else w'')
                 in (t\<lparr>baudRateIx := ix, p1Meter := meter\<rparr>, w''')
               else (t, w))
        in (t1\<lparr>lastReadTime := millis w1\<rparr>, w1))"

text \<open>Lines 187 to 189 of \<^verbatim>\<open>taskFunction\<close>: the stall check of one loop iteration.\<close>

definition stallCheck :: "Env \<Rightarrow> State \<Rightarrow> State" where
  "stallCheck E s =
     (case s of (t, w) \<Rightarrow>
        if millis w - lastReadTime t > 30 * 1000 then rotateP1MeterBaudRate E (t, w)
        else (t, w))"

text \<open>
  Modelled from the spec: \<^verbatim>\<open>P1Meter::update\<close> is not under src/. It ``drives
  callback invocation'': the frames completed in this step are handed to the registered
  callback, one after the other.
\<close>

definition p1MeterUpdate :: "Env \<Rightarrow> IFrameData list \<Rightarrow> State \<Rightarrow> State" where
  "p1MeterUpdate E completed s =
     (if frameCallbackSet (p1Meter (fst s)) then fold (handleFrame E) completed s else s)"

text \<open>
  \<^verbatim>\<open>DataReaderTask::taskFunction\<close>. The loop runs for as long as \<^verbatim>\<open>shouldRun\<close>
  holds, which may be forever; the model runs it on the frames each iteration's
  \<^verbatim>\<open>update\<close> completes, and answers \<open>None\<close> when the loop is still running after
  the last of them.
\<close>

fun taskFunction :: "Env \<Rightarrow> IFrameData list list \<Rightarrow> State \<Rightarrow> State option" where
  "taskFunction E [] s =
     (if shouldRun (fst s) then None else Some (fst s, vTaskDelete None (snd s)))"
| "taskFunction E (completed # later) s =
     (if shouldRun (fst s)
      then
        let s1 = p1MeterUpdate E completed s;
            s2 = stallCheck E s1
        in taskFunction E later (fst s2, vTaskDelay 100 (snd s2))
      else Some (fst s, vTaskDelete None (snd s)))"

subsection \<open>Sequences of pushes\<close>

text \<open>
  A sequence of pushes: each reading is handed to \<^verbatim>\<open>enqueueData\<close> after its delay
  has passed on the clock.
\<close>

fun enqueueAll :: "Env \<Rightarrow> (millis_t \<times> P1Data) list \<Rightarrow> State \<Rightarrow> State" where
  "enqueueAll E [] s = s"
| "enqueueAll E ((d, p) # ps) s = enqueueAll E ps (enqueueData E p (fst s, elapse d (snd s)))"

text \<open>
  The spec's side of the comparison: the packages such a sequence offers to the queue,
  in order, each stamped with the clock at its push; \<open>t0\<close> is the clock before the
  first delay.
\<close>

fun packagesOf :: "Env \<Rightarrow> millis_t \<Rightarrow> (millis_t \<times> P1Data) list \<Rightarrow> DataPackage list" where
  "packagesOf E t0 [] = []"
| "packagesOf E t0 ((d, p) # ps) =
     \<lparr>data = snd (createP1JWTPayload E p), timestamp = t0 + d\<rparr> # packagesOf E (t0 + d) ps"


subsection \<open>Example values\<close>

text \<open>
  A meter with three candidate configurations, a queue of capacity 2 behind every
  handle, decoders that accept a frame by its first byte, and a packaging that fails on
  a reading without measurements.
\<close>

definition exampleMeter :: P1Meter where
  "exampleMeter =
     \<lparr>getNumConfigs = 3,
      getConfig = (\<lambda>i. \<lparr>baudRate = (if i = 0 then 115200 else if i = 1 then 9600 else 2400)\<rparr>),
      beginConfig = None, frameCallbackSet = False\<rparr>"

definition exampleReading :: "string \<Rightarrow> P1Data" where
  "exampleReading s = \<lparr>measurements = [s], timeStamp = 0\<rparr>"

definition exampleTask :: DataReaderTask where
  "exampleTask = newDataReaderTask 8192 5 exampleMeter \<lparr>measurements = [], timeStamp = 0\<rparr>"

definition exampleWorld :: World where
  "exampleWorld =
     \<lparr>now = 0, queues = (\<lambda>h. \<lparr>uxLength = 2, messages = []\<rparr>),
      debug = \<lparr>frames = 0, failedFrames = 0, faultyFrameData = [], p1MeterConfigIndex = 0\<rparr>,
      logs = [], tasksCreated = 0, tasksDeleted = []\<rparr>"

definition exampleEnv :: Env where
  "exampleEnv =
     \<lparr>dlmsDecodeBuffer =
        (\<lambda>f. case frameBytes f of
                [] \<Rightarrow> None
              | b # _ \<Rightarrow> if b = 126 then Some (exampleReading ''dlms'') else None),
      asciiDecodeBuffer =
        (\<lambda>f. case frameBytes f of
                [] \<Rightarrow> None
              | b # _ \<Rightarrow> if b = 47 then Some (exampleReading ''ascii'') else None),
      createP1JWTPayload = (\<lambda>p. (measurements p = [], concat (measurements p))),
      p1MeterBegin = (\<lambda>c. baudRate c = 115200),
      xTaskCreateOk = True\<rparr>"

section \<open>Properties\<close>

lemmas example_defs = exampleMeter_def exampleReading_def exampleTask_def exampleWorld_def
  exampleEnv_def newDataReaderTask_def

subsection \<open>What the methods change\<close>

lemma enqueueData_fst: "fst (enqueueData E d (t, w)) = t"
  by (simp add: enqueueData_def Let_def split: option.splits prod.splits)

lemma enqueueData_null: "p1DataQueue t = None \<Longrightarrow> enqueueData E d (t, w) = (t, w)"
  by (simp add: enqueueData_def)

lemma enqueueData_failed:
  "p1DataQueue t = Some h \<Longrightarrow> fst (createP1JWTPayload E d) \<Longrightarrow>
   enqueueData E d (t, w) = (t, LOG LOG_E ''Failed to create JWT'' [] w)"
  by (cases "createP1JWTPayload E d") (simp add: enqueueData_def)

lemma enqueueData_queues:
  assumes "p1DataQueue t = Some h" and "\<not> fst (createP1JWTPayload E d)"
    and "length (messages (queues w h)) \<le> uxLength (queues w h)"
  shows "queues (snd (enqueueData E d (t, w))) =
    (queues w)(h := (queues w h)\<lparr>messages :=
       drop (Suc (length (messages (queues w h))) - uxLength (queues w h))
         (messages (queues w h) @ [\<lparr>data = snd (createP1JWTPayload E d), timestamp = now w\<rparr>])\<rparr>)"
  using assms
  apply (cases "createP1JWTPayload E d")
  apply (cases "messages (queues w h)")
  apply (auto simp add: enqueueData_def Let_def uxQueueSpacesAvailable_def xQueueReceive_def
      xQueueSendToBack_def LOG_def millis_def fun_eq_iff split: prod.splits list.splits)
  done

lemma enqueueData_rest:
  "now (snd (enqueueData E d (t, w))) = now w"
  "debug (snd (enqueueData E d (t, w))) = debug w"
  "tasksCreated (snd (enqueueData E d (t, w))) = tasksCreated w"
  "tasksDeleted (snd (enqueueData E d (t, w))) = tasksDeleted w"
     apply (auto simp add: enqueueData_def Let_def uxQueueSpacesAvailable_def xQueueReceive_def
      xQueueSendToBack_def LOG_def millis_def fun_eq_iff split: prod.splits list.splits option.splits)
  done

subsection \<open>Pushes in sequence\<close>

lemma length_packagesOf: "length (packagesOf E t0 ps) = length ps"
  by (induction ps arbitrary: t0) auto

lemma drop_oldest_step:
  assumes "length m \<le> N"
  shows "drop (length (drop (Suc (length m) - N) (m @ [x]) @ r) - N)
           (drop (Suc (length m) - N) (m @ [x]) @ r)
         = drop (length (m @ x # r) - N) (m @ x # r)"
proof (cases "length m < N")
  case True
  then show ?thesis by simp
next
  case False
  with assms have eq: "length m = N" by simp
  show ?thesis
  proof (cases m)
    case Nil
    with eq show ?thesis by simp
  next
    case (Cons a m')
    with eq show ?thesis by auto
  qed
qed

lemma enqueueData_task: "fst (enqueueData E d s) = fst s"
  by (cases s) (simp add: enqueueData_fst)

lemma enqueueAll_fst: "fst (enqueueAll E ps s) = fst s"
  by (induction E ps s rule: enqueueAll.induct) (simp_all add: enqueueData_task)

lemma enqueueAll_queue:
  assumes "p1DataQueue t = Some h"
    and "length (messages (queues w h)) \<le> uxLength (queues w h)"
    and "\<forall>(d, p)\<in>set ps. \<not> fst (createP1JWTPayload E p)"
  shows "uxLength (queues (snd (enqueueAll E ps (t, w))) h) = uxLength (queues w h) \<and>
         messages (queues (snd (enqueueAll E ps (t, w))) h) =
           drop (length (messages (queues w h) @ packagesOf E (now w) ps) - uxLength (queues w h))
             (messages (queues w h) @ packagesOf E (now w) ps)"
  using assms
proof (induction ps arbitrary: w)
  case Nil
  then show ?case by simp
next
  case (Cons a ps)
  obtain d p where a: "a = (d, p)" by (cases a)
  let ?w0 = "elapse d w"
  let ?s1 = "enqueueData E p (t, ?w0)"
  let ?w1 = "snd ?s1"
  let ?m = "messages (queues w h)"
  let ?N = "uxLength (queues w h)"
  let ?x = "\<lparr>data = snd (createP1JWTPayload E p), timestamp = now w + d\<rparr>"
  have ok: "\<not> fst (createP1JWTPayload E p)" using Cons.prems(3) a by simp
  have q0: "queues ?w0 = queues w" "now ?w0 = now w + d" by (simp_all add: elapse_def)
  have len0: "length (messages (queues ?w0 h)) \<le> uxLength (queues ?w0 h)"
    using Cons.prems(2) q0 by simp
  have q1: "queues ?w1 h = (queues w h)\<lparr>messages := drop (Suc (length ?m) - ?N) (?m @ [?x])\<rparr>"
    using enqueueData_queues [OF Cons.prems(1) ok len0] q0 by simp
  have n1: "now ?w1 = now w + d" using enqueueData_rest(1) q0 by simp
  have len1: "length (messages (queues ?w1 h)) \<le> uxLength (queues ?w1 h)"
    using Cons.prems(2) q1 by simp
  have s1: "?s1 = (t, ?w1)" using enqueueData_fst [of E p t ?w0] by (metis prod.collapse)
  have rest: "\<forall>(d, p)\<in>set ps. \<not> fst (createP1JWTPayload E p)" using Cons.prems(3) by simp
  have ih: "uxLength (queues (snd (enqueueAll E ps (t, ?w1))) h) = uxLength (queues ?w1 h) \<and>
         messages (queues (snd (enqueueAll E ps (t, ?w1))) h) =
           drop (length (messages (queues ?w1 h) @ packagesOf E (now ?w1) ps) - uxLength (queues ?w1 h))
             (messages (queues ?w1 h) @ packagesOf E (now ?w1) ps)"
    by (rule Cons.IH [OF Cons.prems(1) len1 rest])
  have step: "enqueueAll E (a # ps) (t, w) = enqueueAll E ps (t, ?w1)"
    using a s1 by simp
  show ?case
    unfolding step using ih q1 n1 a drop_oldest_step [OF Cons.prems(2), of ?x "packagesOf E (now w + d) ps"]
    by simp
qed

subsection \<open>The two outcomes of a frame\<close>

lemma decodeFrame_world:
  "snd (decodeFrame E frame w) = w\<lparr>logs := logs (snd (decodeFrame E frame w))\<rparr>"
  by (simp add: decodeFrame_def LOG_def Let_def split: FrameType.splits option.splits)

lemma decodeFrame_unsupported:
  "getFrameTypeId frame \<noteq> FRAME_TYPE_HDLC \<Longrightarrow> getFrameTypeId frame \<noteq> FRAME_TYPE_ASCII \<Longrightarrow>
   fst (decodeFrame E frame w) = None"
  by (simp add: decodeFrame_def split: FrameType.splits)

lemma fold_addFaultyFrameData:
  "fold (\<lambda>i. Debug_addFaultyFrameData (g i)) [0..<n] w =
   w\<lparr>debug := (debug w)\<lparr>faultyFrameData := faultyFrameData (debug w) @ map g [0..<n]\<rparr>\<rparr>"
  by (induction n) (simp_all add: Debug_addFaultyFrameData_def)

lemma frame_bytes_read: "map (getFrameByte frame) [0..<getFrameSize frame] = frameBytes frame"
  unfolding getFrameByte_def getFrameSize_def by (rule map_nth)

lemma handleFrame_failed:
  assumes "fst (decodeFrame E frame w) = None"
  shows "handleFrame E frame (t, w) =
    (t, w\<lparr>debug := (debug w)\<lparr>failedFrames := Suc (failedFrames (debug w)),
                              faultyFrameData := frameBytes frame\<rparr>,
           logs := logs (snd (decodeFrame E frame w)) @
             [(LOG_I, ''Frame decoded %s'', [ArgStr ''false'']),
              (LOG_E, ''Failed to decode P1 data frame'', [])]\<rparr>)"
proof -
  define ls where "ls = logs (snd (decodeFrame E frame w))"
  have "snd (decodeFrame E frame w) = w\<lparr>logs := ls\<rparr>"
    unfolding ls_def by (rule decodeFrame_world)
  with assms have d: "decodeFrame E frame w = (None, w\<lparr>logs := ls\<rparr>)"
    by (cases "decodeFrame E frame w") simp
  show ?thesis
    unfolding handleFrame_def
    by (simp add: d Let_def fold_addFaultyFrameData Debug_addFailedFrame_def
        Debug_clearFaultyFrameData_def LOG_def frame_bytes_read ls_def [symmetric])
qed

lemma handleFrame_decoded:
  assumes "fst (decodeFrame E frame w) = Some d"
  shows "handleFrame E frame (t, w) =
    (t\<lparr>lastReadTime := now w, lastDecodedData := d\<lparr>timeStamp := now w\<rparr>\<rparr>,
     snd (enqueueData E (d\<lparr>timeStamp := now w\<rparr>)
       (t\<lparr>lastReadTime := now w\<rparr>,
        w\<lparr>debug := (debug w)\<lparr>frames := Suc (frames (debug w))\<rparr>,
          logs := logs (snd (decodeFrame E frame w)) @
                    [(LOG_I, ''Frame decoded %s'', [ArgStr ''true''])]\<rparr>)))"
proof -
  define ls where "ls = logs (snd (decodeFrame E frame w))"
  have "snd (decodeFrame E frame w) = w\<lparr>logs := ls\<rparr>"
    unfolding ls_def by (rule decodeFrame_world)
  with assms have dd: "decodeFrame E frame w = (Some d, w\<lparr>logs := ls\<rparr>)"
    by (cases "decodeFrame E frame w") simp
  let ?w3 = "w\<lparr>debug := (debug w)\<lparr>frames := Suc (frames (debug w))\<rparr>,
          logs := ls @ [(LOG_I, ''Frame decoded %s'', [ArgStr ''true''])]\<rparr>"
  let ?s = "enqueueData E (d\<lparr>timeStamp := now w\<rparr>) (t\<lparr>lastReadTime := now w\<rparr>, ?w3)"
  have e: "?s = (t\<lparr>lastReadTime := now w\<rparr>, snd ?s)"
    using enqueueData_fst [of E "d\<lparr>timeStamp := now w\<rparr>" "t\<lparr>lastReadTime := now w\<rparr>" ?w3]
    by (metis prod.collapse)
  have w3: "Debug_addFrame (LOG LOG_I ''Frame decoded %s'' [ArgStr ''true''] (w\<lparr>logs := ls\<rparr>)) = ?w3"
    by (simp add: Debug_addFrame_def LOG_def)
  have n3: "now ?w3 = now w" by simp
  have "handleFrame E frame (t, w) = (case ?s of (t2, w4) \<Rightarrow> (t2\<lparr>lastDecodedData := d\<lparr>timeStamp := now w\<rparr>\<rparr>, w4))"
    unfolding handleFrame_def
    by (simp only: dd Let_def w3 setTimeStamp_def millis_def n3 prod.case option.case
        option.distinct not_False_eq_True not_True_eq_False if_True if_False)
  also have "\<dots> = (t\<lparr>lastReadTime := now w, lastDecodedData := d\<lparr>timeStamp := now w\<rparr>\<rparr>, snd ?s)"
    by (subst e) simp
  finally show ?thesis by (simp only: ls_def)
qed

subsection \<open>Rotation and the stall check\<close>

lemma rotate_fields:
  "lastReadTime (fst (rotateP1MeterBaudRate E (t, w))) = now w"
  "now (snd (rotateP1MeterBaudRate E (t, w))) = now w"
  by (simp_all add: rotateP1MeterBaudRate_def Let_def millis_def LOG_def
      Debug_setP1MeterConfigIndex_def split: prod.splits)

lemma rotate_single:
  "getNumConfigs (p1Meter t) \<le> 1 \<Longrightarrow>
   rotateP1MeterBaudRate E (t, w) = (t\<lparr>lastReadTime := now w\<rparr>, w)"
  by (simp add: rotateP1MeterBaudRate_def millis_def)

lemma rotate_many:
  assumes "1 < getNumConfigs (p1Meter t)"
  shows "baudRateIx (fst (rotateP1MeterBaudRate E (t, w))) = (baudRateIx t + 1) mod getNumConfigs (p1Meter t)"
    and "p1Meter (fst (rotateP1MeterBaudRate E (t, w))) =
           (p1Meter t)\<lparr>beginConfig := Some (getConfig (p1Meter t) ((baudRateIx t + 1) mod getNumConfigs (p1Meter t)))\<rparr>"
    and "p1MeterConfigIndex (debug (snd (rotateP1MeterBaudRate E (t, w)))) = (baudRateIx t + 1) mod getNumConfigs (p1Meter t)"
    and "queues (snd (rotateP1MeterBaudRate E (t, w))) = queues w"
  using assms
  by (simp_all add: rotateP1MeterBaudRate_def Let_def millis_def LOG_def
      Debug_setP1MeterConfigIndex_def split: prod.splits)

lemma stallCheck_stalled:
  "30000 < now w - lastReadTime t \<Longrightarrow> stallCheck E (t, w) = rotateP1MeterBaudRate E (t, w)"
  by (simp add: stallCheck_def millis_def)

lemma stallCheck_fresh:
  "now w - lastReadTime t \<le> 30000 \<Longrightarrow> stallCheck E (t, w) = (t, w)"
  by (simp add: stallCheck_def millis_def not_less [symmetric])

lemma taskFunction_idle_iteration:
  "shouldRun (fst s) \<Longrightarrow>
   taskFunction E ([] # later) s =
     taskFunction E later (fst (stallCheck E s), vTaskDelay 100 (snd (stallCheck E s)))"
  by (simp add: p1MeterUpdate_def Let_def)

subsection \<open>The delivery queue\<close>

text \<open>
  C1. For every sequence of pushes into the Delivery Queue of fixed capacity N: a push
  that finds the queue at capacity removes the oldest (head) element first and then
  appends the new element at the tail, so pushing k items in order leaves the queue
  holding exactly the last min(k, N) of them in their original order, and the queue
  length is at most N after every operation.

  The pushes are calls of \<open>enqueueData\<close> with a queue handle set, on readings whose
  packaging does not fail, with any time passing between them; the queue starts with
  any content \<open>before\<close> within its capacity. Afterwards it holds the last N of
  \<open>before\<close> followed by the pushed packages. The statement holds for every sequence,
  so for each of its prefixes: the bound holds after every push. From an empty queue
  that is the last min(k, N) of the k pushed packages; a single push into a full queue
  drops the head and appends at the tail.
\<close>

theorem enqueueData_drop_oldest:
  assumes "p1DataQueue t = Some h"
    and "length (messages (queues w h)) \<le> uxLength (queues w h)"
    and "\<forall>(d, p)\<in>set ps. \<not> fst (createP1JWTPayload E p)"
  shows "let N = uxLength (queues w h);
             before = messages (queues w h);
             pushed = packagesOf E (now w) ps;
             after = messages (queues (snd (enqueueAll E ps (t, w))) h)
         in uxLength (queues (snd (enqueueAll E ps (t, w))) h) = N \<and>
            length after \<le> N \<and>
            after = drop (length (before @ pushed) - N) (before @ pushed) \<and>
            (before = [] \<longrightarrow> length after = min (length ps) N \<and>
                               after = drop (length ps - N) pushed) \<and>
            (length ps = 1 \<and> length before = N \<and> 0 < N \<longrightarrow> after = tl before @ pushed)"
proof -
  let ?N = "uxLength (queues w h)"
  let ?before = "messages (queues w h)"
  let ?pushed = "packagesOf E (now w) ps"
  let ?q = "queues (snd (enqueueAll E ps (t, w))) h"
  have q: "uxLength ?q = ?N"
    "messages ?q = drop (length (?before @ ?pushed) - ?N) (?before @ ?pushed)"
    using enqueueAll_queue [OF assms] by simp_all
  have len: "length (messages ?q) \<le> ?N"
    unfolding q(2) by simp
  have empty: "length (messages ?q) = min (length ps) ?N \<and> messages ?q = drop (length ps - ?N) ?pushed"
    if "?before = []"
    unfolding q(2) using that by (simp add: length_packagesOf)
  have full: "messages ?q = tl ?before @ ?pushed"
    if "length ps = 1 \<and> length ?before = ?N \<and> 0 < ?N"
  proof -
    from that have "?before \<noteq> []" by auto
    moreover from that have "length ?pushed = 1" by (simp add: length_packagesOf)
    ultimately show ?thesis
      unfolding q(2) using that by (cases ?before) simp_all
  qed
  show ?thesis
    unfolding Let_def using q(1) q(2) len empty full by blast
qed

text \<open>
  The spec's example: A, B and C pushed in order into a queue of capacity 2 leave B
  and C, each with the clock of its push.
\<close>

theorem enqueueData_drop_oldest_witness:
  "messages (queues (snd (enqueueAll exampleEnv
      [(10, exampleReading ''A''), (10, exampleReading ''B''), (10, exampleReading ''C'')]
      (exampleTask\<lparr>p1DataQueue := Some 0\<rparr>, exampleWorld))) 0) =
   [\<lparr>data = ''B'', timestamp = 20\<rparr>, \<lparr>data = ''C'', timestamp = 30\<rparr>]"
proof -
  have h1: "p1DataQueue (exampleTask\<lparr>p1DataQueue := Some 0\<rparr>) = Some 0" by simp
  have h2: "length (messages (queues exampleWorld 0)) \<le> uxLength (queues exampleWorld 0)"
    by (simp add: exampleWorld_def)
  have h3: "\<forall>(d, p)\<in>set [(10, exampleReading ''A''), (10, exampleReading ''B''),
      (10, exampleReading ''C'')]. \<not> fst (createP1JWTPayload exampleEnv p)"
    by (simp add: exampleEnv_def exampleReading_def)
  from enqueueData_drop_oldest [OF h1 h2 h3] show ?thesis
    by (simp add: Let_def exampleWorld_def exampleEnv_def exampleReading_def)
qed

text \<open>
  One call of \<open>enqueueData\<close> on any reading, with a queue handle set.
\<close>

lemma enqueueData_packaged:
  assumes "p1DataQueue t = Some h"
    and "0 < uxLength (queues w h)"
    and "length (messages (queues w h)) \<le> uxLength (queues w h)"
  shows "(fst (createP1JWTPayload E p1data) \<longrightarrow>
            enqueueData E p1data (t, w) =
              (t, w\<lparr>logs := logs w @ [(LOG_E, ''Failed to create JWT'', [])]\<rparr>)) \<and>
         (\<not> fst (createP1JWTPayload E p1data) \<longrightarrow>
            messages (queues (snd (enqueueData E p1data (t, w))) h) =
              (if length (messages (queues w h)) = uxLength (queues w h)
               then tl (messages (queues w h)) else messages (queues w h)) @
              [\<lparr>data = snd (createP1JWTPayload E p1data), timestamp = now w\<rparr>] \<and>
            logs (snd (enqueueData E p1data (t, w))) =
              logs w @
              (if length (messages (queues w h)) = uxLength (queues w h)
               then [(LOG_W, ''Queue full, removed oldest item'', [])] else []) @
              [(LOG_D, ''Added data package to queue'', [])])"
proof (intro conjI impI)
  assume "fst (createP1JWTPayload E p1data)"
  then show "enqueueData E p1data (t, w) =
              (t, w\<lparr>logs := logs w @ [(LOG_E, ''Failed to create JWT'', [])]\<rparr>)"
    using assms(1) by (simp add: enqueueData_failed LOG_def)
next
  assume ok: "\<not> fst (createP1JWTPayload E p1data)"
  show "messages (queues (snd (enqueueData E p1data (t, w))) h) =
              (if length (messages (queues w h)) = uxLength (queues w h)
               then tl (messages (queues w h)) else messages (queues w h)) @
              [\<lparr>data = snd (createP1JWTPayload E p1data), timestamp = now w\<rparr>]"
    using enqueueData_queues [OF assms(1) ok assms(3)] assms(2) assms(3)
    by (cases "messages (queues w h)") auto
  show "logs (snd (enqueueData E p1data (t, w))) =
              logs w @
              (if length (messages (queues w h)) = uxLength (queues w h)
               then [(LOG_W, ''Queue full, removed oldest item'', [])] else []) @
              [(LOG_D, ''Added data package to queue'', [])]"
    using ok assms
    by (cases "createP1JWTPayload E p1data")
      (auto simp add: enqueueData_def Let_def uxQueueSpacesAvailable_def xQueueReceive_def
        xQueueSendToBack_def LOG_def split: list.splits)
qed

text \<open>
  C3. For every Reading produced by a successful decode: if packaging the Reading into
  a Delivery Package fails, the failure is reported and the reading is dropped, nothing
  is pushed to the Delivery Queue; if packaging succeeds, the resulting package, with
  its acceptance timestamp, is pushed to the queue.

  The reading is the one \<open>handleFrame\<close> decodes from a frame and stamps; the queue
  handle is set and the queue has a capacity of at least 1 and holds no more than it.
  Line 76 takes a true return of \<^verbatim>\<open>createP1JWTPayload\<close> for the failure, and so
  does the statement (the function is not under src/). When it reports the failure,
  \<open>handleFrame\<close> logs that one error after the decode, every queue is as it was, and
  all that remains of the reading is the timer, the last decoded reading and the frame
  counter. Otherwise the package of the stamped reading, stamped with the clock, is the
  new tail of the queue (after the head was dropped from a full queue), and the log
  reports its addition and no error.
\<close>

theorem handleFrame_packaging:
  assumes "fst (decodeFrame E frame w) = Some d"
    and "p1DataQueue t = Some h"
    and "0 < uxLength (queues w h)"
    and "length (messages (queues w h)) \<le> uxLength (queues w h)"
  shows "(fst (createP1JWTPayload E (d\<lparr>timeStamp := now w\<rparr>)) \<longrightarrow>
            handleFrame E frame (t, w) =
              (t\<lparr>lastReadTime := now w, lastDecodedData := d\<lparr>timeStamp := now w\<rparr>\<rparr>,
               w\<lparr>debug := (debug w)\<lparr>frames := Suc (frames (debug w))\<rparr>,
                 logs := logs (snd (decodeFrame E frame w)) @
                           [(LOG_I, ''Frame decoded %s'', [ArgStr ''true'']),
                            (LOG_E, ''Failed to create JWT'', [])]\<rparr>) \<and>
            queues (snd (handleFrame E frame (t, w))) = queues w) \<and>
         (\<not> fst (createP1JWTPayload E (d\<lparr>timeStamp := now w\<rparr>)) \<longrightarrow>
            messages (queues (snd (handleFrame E frame (t, w))) h) =
              (if length (messages (queues w h)) = uxLength (queues w h)
               then tl (messages (queues w h)) else messages (queues w h)) @
              [\<lparr>data = snd (createP1JWTPayload E (d\<lparr>timeStamp := now w\<rparr>)), timestamp = now w\<rparr>] \<and>
            logs (snd (handleFrame E frame (t, w))) =
              logs (snd (decodeFrame E frame w)) @
              [(LOG_I, ''Frame decoded %s'', [ArgStr ''true''])] @
              (if length (messages (queues w h)) = uxLength (queues w h)
               then [(LOG_W, ''Queue full, removed oldest item'', [])] else []) @
              [(LOG_D, ''Added data package to queue'', [])])"
proof -
  let ?r = "d\<lparr>timeStamp := now w\<rparr>"
  let ?t1 = "t\<lparr>lastReadTime := now w\<rparr>"
  let ?ls = "logs (snd (decodeFrame E frame w)) @ [(LOG_I, ''Frame decoded %s'', [ArgStr ''true''])]"
  let ?w3 = "w\<lparr>debug := (debug w)\<lparr>frames := Suc (frames (debug w))\<rparr>, logs := ?ls\<rparr>"
  have hf: "handleFrame E frame (t, w) =
      (t\<lparr>lastReadTime := now w, lastDecodedData := ?r\<rparr>, snd (enqueueData E ?r (?t1, ?w3)))"
    using assms(1) by (rule handleFrame_decoded)
  have q: "p1DataQueue ?t1 = Some h" using assms(2) by simp
  have w3: "queues ?w3 = queues w" "now ?w3 = now w" "logs ?w3 = ?ls" by simp_all
  have cap: "0 < uxLength (queues ?w3 h)" using assms(3) by simp
  have len: "length (messages (queues ?w3 h)) \<le> uxLength (queues ?w3 h)" using assms(4) by simp
  note step = enqueueData_packaged [OF q cap len, of E ?r]
  show ?thesis
  proof (intro conjI impI)
    assume f: "fst (createP1JWTPayload E ?r)"
    with step have e: "enqueueData E ?r (?t1, ?w3) =
        (?t1, ?w3\<lparr>logs := logs ?w3 @ [(LOG_E, ''Failed to create JWT'', [])]\<rparr>)"
      by blast
    have eq: "?w3\<lparr>logs := logs ?w3 @ [(LOG_E, ''Failed to create JWT'', [])]\<rparr> =
        w\<lparr>debug := (debug w)\<lparr>frames := Suc (frames (debug w))\<rparr>,
          logs := logs (snd (decodeFrame E frame w)) @
                    [(LOG_I, ''Frame decoded %s'', [ArgStr ''true'']),
                     (LOG_E, ''Failed to create JWT'', [])]\<rparr>"
      by simp
    show "handleFrame E frame (t, w) =
              (t\<lparr>lastReadTime := now w, lastDecodedData := d\<lparr>timeStamp := now w\<rparr>\<rparr>,
               w\<lparr>debug := (debug w)\<lparr>frames := Suc (frames (debug w))\<rparr>,
                 logs := logs (snd (decodeFrame E frame w)) @
                           [(LOG_I, ''Frame decoded %s'', [ArgStr ''true'']),
                            (LOG_E, ''Failed to create JWT'', [])]\<rparr>)"
      unfolding hf e snd_conv eq ..
    show "queues (snd (handleFrame E frame (t, w))) = queues w"
      unfolding hf e snd_conv by simp
  next
    assume ok: "\<not> fst (createP1JWTPayload E ?r)"
    with step have m: "messages (queues (snd (enqueueData E ?r (?t1, ?w3))) h) =
              (if length (messages (queues ?w3 h)) = uxLength (queues ?w3 h)
               then tl (messages (queues ?w3 h)) else messages (queues ?w3 h)) @
              [\<lparr>data = snd (createP1JWTPayload E ?r), timestamp = now ?w3\<rparr>]"
      and l: "logs (snd (enqueueData E ?r (?t1, ?w3))) =
              logs ?w3 @
              (if length (messages (queues ?w3 h)) = uxLength (queues ?w3 h)
               then [(LOG_W, ''Queue full, removed oldest item'', [])] else []) @
              [(LOG_D, ''Added data package to queue'', [])]"
      by blast+
    show "messages (queues (snd (handleFrame E frame (t, w))) h) =
              (if length (messages (queues w h)) = uxLength (queues w h)
               then tl (messages (queues w h)) else messages (queues w h)) @
              [\<lparr>data = snd (createP1JWTPayload E (d\<lparr>timeStamp := now w\<rparr>)), timestamp = now w\<rparr>]"
      unfolding hf snd_conv m by simp
    show "logs (snd (handleFrame E frame (t, w))) =
              logs (snd (decodeFrame E frame w)) @
              [(LOG_I, ''Frame decoded %s'', [ArgStr ''true''])] @
              (if length (messages (queues w h)) = uxLength (queues w h)
               then [(LOG_W, ''Queue full, removed oldest item'', [])] else []) @
              [(LOG_D, ''Added data package to queue'', [])]"
      unfolding hf snd_conv l by simp
  qed
qed

theorem handleFrame_packaging_witness:
  "queues (snd (handleFrame (exampleEnv\<lparr>createP1JWTPayload := (\<lambda>p. (True, []))\<rparr>)
      \<lparr>getFrameTypeId = FRAME_TYPE_HDLC, frameBytes = [126, 0]\<rparr>
      (exampleTask\<lparr>p1DataQueue := Some 0\<rparr>, elapse 50000 exampleWorld))) = queues exampleWorld \<and>
   logs (snd (handleFrame (exampleEnv\<lparr>createP1JWTPayload := (\<lambda>p. (True, []))\<rparr>)
      \<lparr>getFrameTypeId = FRAME_TYPE_HDLC, frameBytes = [126, 0]\<rparr>
      (exampleTask\<lparr>p1DataQueue := Some 0\<rparr>, elapse 50000 exampleWorld))) =
     [(LOG_D, ''DLMS frame detected'', []), (LOG_I, ''DLMS data decoded successfully'', []),
      (LOG_I, ''Frame decoded %s'', [ArgStr ''true'']), (LOG_E, ''Failed to create JWT'', [])] \<and>
   messages (queues (snd (handleFrame exampleEnv
      \<lparr>getFrameTypeId = FRAME_TYPE_HDLC, frameBytes = [126, 0]\<rparr>
      (exampleTask\<lparr>p1DataQueue := Some 0\<rparr>, elapse 50000 exampleWorld))) 0) =
     [\<lparr>data = ''dlms'', timestamp = 50000\<rparr>]"
proof -
  let ?E = "exampleEnv\<lparr>createP1JWTPayload := (\<lambda>p. (True, []))\<rparr>"
  let ?f = "\<lparr>getFrameTypeId = FRAME_TYPE_HDLC, frameBytes = [126, 0]\<rparr>"
  let ?w = "elapse 50000 exampleWorld"
  have d1: "fst (decodeFrame ?E ?f ?w) = Some (exampleReading ''dlms'')"
    and d2: "fst (decodeFrame exampleEnv ?f ?w) = Some (exampleReading ''dlms'')"
    by (simp_all add: decodeFrame_def exampleEnv_def)
  have l1: "logs (snd (decodeFrame ?E ?f ?w)) =
      [(LOG_D, ''DLMS frame detected'', []), (LOG_I, ''DLMS data decoded successfully'', [])]"
    by (simp add: decodeFrame_def exampleEnv_def LOG_def elapse_def exampleWorld_def)
  have h: "p1DataQueue (exampleTask\<lparr>p1DataQueue := Some 0\<rparr>) = Some 0" by simp
  have c: "0 < uxLength (queues ?w 0)" by (simp add: elapse_def exampleWorld_def)
  have n: "length (messages (queues ?w 0)) \<le> uxLength (queues ?w 0)"
    by (simp add: elapse_def exampleWorld_def)
  have f: "fst (createP1JWTPayload ?E ((exampleReading ''dlms'')\<lparr>timeStamp := now ?w\<rparr>))"
    "\<not> fst (createP1JWTPayload exampleEnv ((exampleReading ''dlms'')\<lparr>timeStamp := now ?w\<rparr>))"
    "snd (createP1JWTPayload exampleEnv ((exampleReading ''dlms'')\<lparr>timeStamp := now ?w\<rparr>)) = ''dlms''"
    by (simp_all add: exampleEnv_def exampleReading_def)
  have w: "queues ?w = queues exampleWorld" "messages (queues ?w 0) = []"
    "uxLength (queues ?w 0) = 2" "now ?w = 50000"
    by (simp_all add: elapse_def exampleWorld_def)
  from handleFrame_packaging [OF d1 h c n] handleFrame_packaging [OF d2 h c n] f w l1
  show ?thesis by simp
qed

subsection \<open>The recovery supervisor\<close>

text \<open>
  C2. For every state in which more than one link configuration candidate exists and
  the time elapsed since the last successful decode (or last recovery action) exceeds
  the stall window, the stall check advances the active configuration index to
  (index + 1) mod candidateCount and reconfigures the Frame Source with the new
  candidate; starting from index 0 with 3 candidates, successive stalls make the index
  1, then 2, then wrap back to 0.

  The stall window of \<open>stallCheck\<close> is 30000 ms. The first part is one stall check:
  the new index, that it is a position of the table, the candidate handed to the
  meter's \<^verbatim>\<open>begin\<close>, the index reported to \<^verbatim>\<open>Debug\<close> and the timer. The second
  part is three stall checks, each after more than the window has passed, whatever the
  meter answers to each reconfiguration.
\<close>

theorem stallCheck_rotates:
  "(1 < getNumConfigs (p1Meter t) \<and> 30000 < now w - lastReadTime t \<longrightarrow>
      (let n = getNumConfigs (p1Meter t);
           ix = (baudRateIx t + 1) mod n;
           s' = stallCheck E (t, w)
       in baudRateIx (fst s') = ix \<and> ix < n \<and>
          p1Meter (fst s') = (p1Meter t)\<lparr>beginConfig := Some (getConfig (p1Meter t) ix)\<rparr> \<and>
          p1MeterConfigIndex (debug (snd s')) = ix \<and>
          lastReadTime (fst s') = now w)) \<and>
   (getNumConfigs (p1Meter t) = 3 \<and> baudRateIx t = 0 \<and> lastReadTime t = now w \<and>
    30000 < d1 \<and> 30000 < d2 \<and> 30000 < d3 \<longrightarrow>
      (let s1 = stallCheck E1 (t, elapse d1 w);
           s2 = stallCheck E2 (fst s1, elapse d2 (snd s1));
           s3 = stallCheck E3 (fst s2, elapse d3 (snd s2))
       in baudRateIx (fst s1) = 1 \<and> baudRateIx (fst s2) = 2 \<and> baudRateIx (fst s3) = 0))"
proof (intro conjI impI)
  assume a: "1 < getNumConfigs (p1Meter t) \<and> 30000 < now w - lastReadTime t"
  then have s: "stallCheck E (t, w) = rotateP1MeterBaudRate E (t, w)"
    by (simp add: stallCheck_stalled)
  from a show "let n = getNumConfigs (p1Meter t);
           ix = (baudRateIx t + 1) mod n;
           s' = stallCheck E (t, w)
       in baudRateIx (fst s') = ix \<and> ix < n \<and>
          p1Meter (fst s') = (p1Meter t)\<lparr>beginConfig := Some (getConfig (p1Meter t) ix)\<rparr> \<and>
          p1MeterConfigIndex (debug (snd s')) = ix \<and>
          lastReadTime (fst s') = now w"
    by (simp add: Let_def s rotate_many rotate_fields)
next
  assume a: "getNumConfigs (p1Meter t) = 3 \<and> baudRateIx t = 0 \<and> lastReadTime t = now w \<and>
    30000 < d1 \<and> 30000 < d2 \<and> 30000 < d3"
  have step: "\<And>E (t::DataReaderTask) (w::World) d. getNumConfigs (p1Meter t) = 3 \<Longrightarrow> lastReadTime t = now w \<Longrightarrow> 30000 < d \<Longrightarrow>
     (let s = stallCheck E (t, elapse d w) in
        baudRateIx (fst s) = (baudRateIx t + 1) mod 3 \<and> getNumConfigs (p1Meter (fst s)) = 3 \<and>
        lastReadTime (fst s) = now (snd s))"
  proof -
    fix E and t :: DataReaderTask and w :: World and d :: millis_t
    assume n: "getNumConfigs (p1Meter t) = 3" and l: "lastReadTime t = now w" and d: "30000 < d"
    have "30000 < now (elapse d w) - lastReadTime t" using l d by (simp add: elapse_def)
    then have "stallCheck E (t, elapse d w) = rotateP1MeterBaudRate E (t, elapse d w)"
      by (rule stallCheck_stalled)
    then show "let s = stallCheck E (t, elapse d w) in
        baudRateIx (fst s) = (baudRateIx t + 1) mod 3 \<and> getNumConfigs (p1Meter (fst s)) = 3 \<and>
        lastReadTime (fst s) = now (snd s)"
      using n by (simp add: Let_def rotate_many rotate_fields)
  qed
  define s1 where "s1 = stallCheck E1 (t, elapse d1 w)"
  define s2 where "s2 = stallCheck E2 (fst s1, elapse d2 (snd s1))"
  define s3 where "s3 = stallCheck E3 (fst s2, elapse d3 (snd s2))"
  have 1: "baudRateIx (fst s1) = 1 \<and> getNumConfigs (p1Meter (fst s1)) = 3 \<and> lastReadTime (fst s1) = now (snd s1)"
    using step [of t w d1 E1] a by (simp add: s1_def Let_def)
  have 2: "baudRateIx (fst s2) = 2 \<and> getNumConfigs (p1Meter (fst s2)) = 3 \<and> lastReadTime (fst s2) = now (snd s2)"
    using step [of "fst s1" "snd s1" d2 E2] a 1 by (simp add: s2_def Let_def)
  have 3: "baudRateIx (fst s3) = 0"
    using step [of "fst s2" "snd s2" d3 E3] a 2 by (simp add: s3_def Let_def)
  show "let s1 = stallCheck E1 (t, elapse d1 w);
           s2 = stallCheck E2 (fst s1, elapse d2 (snd s1));
           s3 = stallCheck E3 (fst s2, elapse d3 (snd s2))
       in baudRateIx (fst s1) = 1 \<and> baudRateIx (fst s2) = 2 \<and> baudRateIx (fst s3) = 0"
    using 1 2 3 by (simp add: Let_def s1_def s2_def s3_def)
qed

theorem stallCheck_rotates_witness:
  "baudRateIx (fst (stallCheck exampleEnv (exampleTask, elapse 30001 exampleWorld))) = 1 \<and>
   baudRateIx (fst (stallCheck exampleEnv
     (fst (stallCheck exampleEnv
        (fst (stallCheck exampleEnv (exampleTask, elapse 30001 exampleWorld)),
         elapse 30001 (snd (stallCheck exampleEnv (exampleTask, elapse 30001 exampleWorld))))),
      elapse 30001 (snd (stallCheck exampleEnv
        (fst (stallCheck exampleEnv (exampleTask, elapse 30001 exampleWorld)),
         elapse 30001 (snd (stallCheck exampleEnv (exampleTask, elapse 30001 exampleWorld))))))))) = 0 \<and>
   beginConfig (p1Meter (fst (stallCheck exampleEnv (exampleTask, elapse 30001 exampleWorld)))) =
     Some \<lparr>baudRate = 9600\<rparr>"
proof -
  have a: "1 < getNumConfigs (p1Meter exampleTask) \<and>
      30000 < now (elapse 30001 exampleWorld) - lastReadTime exampleTask"
    by (simp add: example_defs elapse_def)
  have b: "getNumConfigs (p1Meter exampleTask) = 3 \<and> baudRateIx exampleTask = 0 \<and>
      lastReadTime exampleTask = now exampleWorld \<and>
      (30000 :: millis_t) < 30001 \<and> (30000 :: millis_t) < 30001 \<and> (30000 :: millis_t) < 30001"
    by (simp add: example_defs)
  have c: "getConfig (p1Meter exampleTask) 1 = \<lparr>baudRate = 9600\<rparr>" "baudRateIx exampleTask = 0"
    "getNumConfigs (p1Meter exampleTask) = 3"
    by (simp_all add: example_defs)
  from stallCheck_rotates [of exampleTask "elapse 30001 exampleWorld" exampleEnv 30001 30001 30001
      exampleEnv exampleEnv exampleEnv]
    stallCheck_rotates [of exampleTask exampleWorld exampleEnv 30001 30001 30001
      exampleEnv exampleEnv exampleEnv]
    a b c
  show ?thesis
    by (simp add: Let_def)
qed

text \<open>
  C4. Every invocation of the recovery action resets the stall timer (lastSuccessTime)
  to the current time as a postcondition, regardless of whether reconfiguring the Frame
  Source succeeded; and when exactly one configuration candidate exists, the recovery
  action leaves the active index unchanged (no rotation, no reconfiguration) while still
  refreshing the stall timer.

  \<open>rotateP1MeterBaudRate\<close> ends with the timer at the clock for every answer \<open>E\<close> of
  the meter, and with one candidate it changes the timer and nothing else.
\<close>

theorem rotate_resets_timer:
  "lastReadTime (fst (rotateP1MeterBaudRate E (t, w))) = now w \<and>
   now (snd (rotateP1MeterBaudRate E (t, w))) = now w \<and>
   (getNumConfigs (p1Meter t) = 1 \<longrightarrow>
      rotateP1MeterBaudRate E (t, w) = (t\<lparr>lastReadTime := now w\<rparr>, w))"
  by (simp add: rotate_fields rotate_single)

theorem rotate_resets_timer_witness:
  "rotateP1MeterBaudRate exampleEnv
     (exampleTask\<lparr>p1Meter := exampleMeter\<lparr>getNumConfigs := 1\<rparr>\<rparr>, elapse 40000 exampleWorld) =
   (exampleTask\<lparr>p1Meter := exampleMeter\<lparr>getNumConfigs := 1\<rparr>, lastReadTime := 40000\<rparr>,
    elapse 40000 exampleWorld)"
proof -
  have h: "getNumConfigs (p1Meter (exampleTask\<lparr>p1Meter := exampleMeter\<lparr>getNumConfigs := 1\<rparr>\<rparr>)) = 1"
    by simp
  have n: "now (elapse 40000 exampleWorld) = 40000" by (simp add: elapse_def exampleWorld_def)
  from rotate_resets_timer [of exampleEnv "exampleTask\<lparr>p1Meter := exampleMeter\<lparr>getNumConfigs := 1\<rparr>\<rparr>"
      "elapse 40000 exampleWorld"] h n
  show ?thesis by simp
qed

subsection \<open>Start and stop\<close>

text \<open>
  C9. start and stop are idempotent on the worker state: calling start while the worker
  task is already running changes nothing (no-op, no second task created and no
  re-registration of the callback or queue handle), and calling stop while the worker is
  not running changes nothing (no-op, no error).

  With a task handle set, \<open>begin_task\<close> returns the object and the world as they
  were; without one, \<open>stop\<close> does. So a second \<open>stop\<close> changes nothing, and neither
  does a second \<open>begin_task\<close> after one whose task creation succeeded.
\<close>

theorem begin_stop_noop:
  "(taskHandle t \<noteq> None \<longrightarrow> begin_task E dataQueue (t, w) = (t, w)) \<and>
   (taskHandle t = None \<longrightarrow> stop (t, w) = (t, w)) \<and>
   stop (stop (t, w)) = stop (t, w) \<and>
   (xTaskCreateOk E \<longrightarrow> begin_task E' dataQueue' (begin_task E dataQueue (t, w)) = begin_task E dataQueue (t, w))"
proof (intro conjI impI)
  show "taskHandle t \<noteq> None \<Longrightarrow> begin_task E dataQueue (t, w) = (t, w)"
    by (simp add: begin_task_def)
  show "taskHandle t = None \<Longrightarrow> stop (t, w) = (t, w)"
    by (simp add: stop_def)
  show "stop (stop (t, w)) = stop (t, w)"
    by (simp add: stop_def Let_def split: option.splits)
  show "xTaskCreateOk E \<Longrightarrow> begin_task E' dataQueue' (begin_task E dataQueue (t, w)) = begin_task E dataQueue (t, w)"
    by (simp add: begin_task_def Let_def xTaskCreatePinnedToCore_def split: prod.splits)
qed

theorem begin_stop_noop_witness:
  "begin_task exampleEnv (Some 7) (exampleTask\<lparr>taskHandle := Some 0\<rparr>, exampleWorld) =
     (exampleTask\<lparr>taskHandle := Some 0\<rparr>, exampleWorld) \<and>
   stop (exampleTask, exampleWorld) = (exampleTask, exampleWorld) \<and>
   taskHandle (fst (begin_task exampleEnv (Some 7) (exampleTask, exampleWorld))) = Some 0 \<and>
   begin_task exampleEnv (Some 8) (begin_task exampleEnv (Some 7) (exampleTask, exampleWorld)) =
     begin_task exampleEnv (Some 7) (exampleTask, exampleWorld)"
proof -
  have a: "taskHandle (exampleTask\<lparr>taskHandle := Some 0\<rparr>) \<noteq> None" by simp
  have b: "taskHandle exampleTask = None" by (simp add: example_defs)
  have c: "xTaskCreateOk exampleEnv" by (simp add: exampleEnv_def)
  have d: "taskHandle (fst (begin_task exampleEnv (Some 7) (exampleTask, exampleWorld))) = Some 0"
    by (simp add: begin_task_def Let_def xTaskCreatePinnedToCore_def LOG_def example_defs
        split: prod.splits)
  from begin_stop_noop [of "exampleTask\<lparr>taskHandle := Some 0\<rparr>" exampleEnv "Some 7" exampleWorld]
    begin_stop_noop [of exampleTask exampleEnv "Some 7" exampleWorld exampleEnv "Some 8"] a b c d
  show ?thesis by simp
qed

subsection \<open>Handling a frame\<close>

text \<open>
  C5. For every frame whose declared type discriminant has no implemented decoder
  (including the explicitly known-but-unimplemented sub-metering/M-Bus type and any
  unknown type), handling the frame never raises a fatal error and is always counted as
  a decode failure (the failed-frame diagnostic counter is incremented and nothing is
  enqueued).

  A frame that is neither HDLC nor ASCII is not decoded; \<open>handleFrame\<close>, which has no
  failing branch, returns the object unchanged, the failed-frame counter one higher, the
  counter of decoded frames and every queue as they were.
\<close>

theorem handleFrame_unsupported_type:
  assumes "getFrameTypeId frame \<noteq> FRAME_TYPE_HDLC" and "getFrameTypeId frame \<noteq> FRAME_TYPE_ASCII"
  shows "fst (decodeFrame E frame w) = None \<and>
         fst (handleFrame E frame (t, w)) = t \<and>
         failedFrames (debug (snd (handleFrame E frame (t, w)))) = Suc (failedFrames (debug w)) \<and>
         frames (debug (snd (handleFrame E frame (t, w)))) = frames (debug w) \<and>
         queues (snd (handleFrame E frame (t, w))) = queues w"
proof -
  have "fst (decodeFrame E frame w) = None"
    using assms by (rule decodeFrame_unsupported)
  then show ?thesis
    by (simp add: handleFrame_failed)
qed

theorem handleFrame_unsupported_type_witness:
  "failedFrames (debug (snd (handleFrame exampleEnv
      \<lparr>getFrameTypeId = FRAME_TYPE_MBUS, frameBytes = [126, 2, 3]\<rparr>
      (exampleTask\<lparr>p1DataQueue := Some 0\<rparr>, exampleWorld)))) = 1 \<and>
   messages (queues (snd (handleFrame exampleEnv
      \<lparr>getFrameTypeId = FRAME_TYPE_OTHER 9, frameBytes = [126, 2, 3]\<rparr>
      (exampleTask\<lparr>p1DataQueue := Some 0\<rparr>, exampleWorld))) 0) = []"
proof -
  have a: "getFrameTypeId \<lparr>getFrameTypeId = FRAME_TYPE_MBUS, frameBytes = [126, 2, 3]\<rparr> \<noteq> FRAME_TYPE_HDLC"
    "getFrameTypeId \<lparr>getFrameTypeId = FRAME_TYPE_MBUS, frameBytes = [126, 2, 3]\<rparr> \<noteq> FRAME_TYPE_ASCII"
    "getFrameTypeId \<lparr>getFrameTypeId = FRAME_TYPE_OTHER 9, frameBytes = [126, 2, 3]\<rparr> \<noteq> FRAME_TYPE_HDLC"
    "getFrameTypeId \<lparr>getFrameTypeId = FRAME_TYPE_OTHER 9, frameBytes = [126, 2, 3]\<rparr> \<noteq> FRAME_TYPE_ASCII"
    by simp_all
  have w: "failedFrames (debug exampleWorld) = 0" "messages (queues exampleWorld 0) = []"
    by (simp_all add: exampleWorld_def)
  from handleFrame_unsupported_type [OF a(1) a(2), of exampleEnv exampleWorld
      "exampleTask\<lparr>p1DataQueue := Some 0\<rparr>"]
    handleFrame_unsupported_type [OF a(3) a(4), of exampleEnv exampleWorld
      "exampleTask\<lparr>p1DataQueue := Some 0\<rparr>"] w
  show ?thesis by simp
qed

text \<open>
  C6. For every frame whose decode fails, handling the frame leaves the Delivery Queue
  and the stall timer (lastSuccessTime) unchanged; the only state updated is
  diagnostics: the failed-frame counter is incremented and the faulty-frame snapshot is
  replaced by a copy of exactly that frame's bytes in order.

  When the \<^verbatim>\<open>switch\<close> leaves \<^verbatim>\<open>isDecoded\<close> false, the object is unchanged, and
  of the world only \<^verbatim>\<open>Debug\<close> and the log are: the failed-frame counter is one
  higher and the snapshot is the frame's bytes.
\<close>

theorem handleFrame_decode_failure:
  assumes "fst (decodeFrame E frame w) = None"
  shows "fst (handleFrame E frame (t, w)) = t \<and>
         snd (handleFrame E frame (t, w)) =
           w\<lparr>debug := (debug w)\<lparr>failedFrames := Suc (failedFrames (debug w)),
                                  faultyFrameData := frameBytes frame\<rparr>,
             logs := logs (snd (handleFrame E frame (t, w)))\<rparr> \<and>
         queues (snd (handleFrame E frame (t, w))) = queues w \<and>
         lastReadTime (fst (handleFrame E frame (t, w))) = lastReadTime t"
  using assms by (simp add: handleFrame_failed)

theorem handleFrame_decode_failure_witness:
  "debug (snd (handleFrame exampleEnv \<lparr>getFrameTypeId = FRAME_TYPE_HDLC, frameBytes = [1, 2, 3]\<rparr>
      (exampleTask\<lparr>p1DataQueue := Some 0\<rparr>, exampleWorld))) =
     \<lparr>frames = 0, failedFrames = 1, faultyFrameData = [1, 2, 3], p1MeterConfigIndex = 0\<rparr> \<and>
   queues (snd (handleFrame exampleEnv \<lparr>getFrameTypeId = FRAME_TYPE_HDLC, frameBytes = [1, 2, 3]\<rparr>
      (exampleTask\<lparr>p1DataQueue := Some 0\<rparr>, exampleWorld))) = queues exampleWorld"
proof -
  have a: "fst (decodeFrame exampleEnv \<lparr>getFrameTypeId = FRAME_TYPE_HDLC, frameBytes = [1, 2, 3]\<rparr>
      exampleWorld) = None"
    by (simp add: decodeFrame_def exampleEnv_def)
  have w: "debug exampleWorld =
      \<lparr>frames = 0, failedFrames = 0, faultyFrameData = [], p1MeterConfigIndex = 0\<rparr>"
    by (simp add: exampleWorld_def)
  have "debug (snd (handleFrame exampleEnv \<lparr>getFrameTypeId = FRAME_TYPE_HDLC, frameBytes = [1, 2, 3]\<rparr>
      (exampleTask\<lparr>p1DataQueue := Some 0\<rparr>, exampleWorld))) =
     (debug exampleWorld)\<lparr>failedFrames := Suc (failedFrames (debug exampleWorld)),
        faultyFrameData := frameBytes \<lparr>getFrameTypeId = FRAME_TYPE_HDLC, frameBytes = [1, 2, 3]\<rparr>\<rparr>"
    by (subst handleFrame_decode_failure [OF a, THEN conjunct2, THEN conjunct1]) simp
  with handleFrame_decode_failure [OF a, of "exampleTask\<lparr>p1DataQueue := Some 0\<rparr>"] w
  show ?thesis by simp
qed

text \<open>
  C10. If the delivery-queue handle is null (start has not yet supplied one), the
  enqueue step for a successfully decoded reading is a guarded total no-op: no packaging
  is attempted, nothing is pushed, no error is raised, and no state other than the
  reading's own bookkeeping changes; a successful decode before start never crashes or
  enqueues.

  Without a queue handle \<open>enqueueData\<close> returns the object and the world as they
  were, whatever the packaging would answer. Handling a frame that decodes then sets the
  timer and the last decoded reading, counts the frame and logs the decode: no queue
  changes and no error is logged after the decoder's own lines.
\<close>

theorem enqueueData_null_queue:
  assumes "p1DataQueue t = None"
  shows "enqueueData E p1data (t, w) = (t, w) \<and>
         (fst (decodeFrame E frame w) = Some d \<longrightarrow>
            handleFrame E frame (t, w) =
              (t\<lparr>lastReadTime := now w, lastDecodedData := d\<lparr>timeStamp := now w\<rparr>\<rparr>,
               w\<lparr>debug := (debug w)\<lparr>frames := Suc (frames (debug w))\<rparr>,
                 logs := logs (snd (decodeFrame E frame w)) @
                           [(LOG_I, ''Frame decoded %s'', [ArgStr ''true''])]\<rparr>))"
  using assms by (simp add: enqueueData_null handleFrame_decoded)

theorem enqueueData_null_queue_witness:
  "enqueueData exampleEnv (exampleReading ''A'') (exampleTask, exampleWorld) =
     (exampleTask, exampleWorld) \<and>
   queues (snd (handleFrame exampleEnv \<lparr>getFrameTypeId = FRAME_TYPE_HDLC, frameBytes = [126, 0]\<rparr>
     (exampleTask, exampleWorld))) = queues exampleWorld \<and>
   frames (debug (snd (handleFrame exampleEnv
     \<lparr>getFrameTypeId = FRAME_TYPE_HDLC, frameBytes = [126, 0]\<rparr> (exampleTask, exampleWorld)))) = 1"
proof -
  have a: "p1DataQueue exampleTask = None" by (simp add: example_defs)
  have b: "fst (decodeFrame exampleEnv \<lparr>getFrameTypeId = FRAME_TYPE_HDLC, frameBytes = [126, 0]\<rparr>
      exampleWorld) = Some (exampleReading ''dlms'')"
    by (simp add: decodeFrame_def exampleEnv_def)
  have w: "frames (debug exampleWorld) = 0" by (simp add: exampleWorld_def)
  from enqueueData_null_queue [OF a, of exampleEnv "exampleReading ''A''" exampleWorld
      "\<lparr>getFrameTypeId = FRAME_TYPE_HDLC, frameBytes = [126, 0]\<rparr>" "exampleReading ''dlms''"] b w
  show ?thesis by simp
qed

subsection \<open>The stall timer and its window\<close>

text \<open>
  C7. After any successful decode, the stall timer is reset to the current time, so a
  stall check performed immediately afterwards (zero or negligible elapsed time, elapsed
  not exceeding the stall window) never triggers a configuration rotation: the system
  never rotates the link configuration in the same instant as a successful decode.

  After \<open>handleFrame\<close> on a frame that decodes, the timer is the clock; the stall
  check at once, and the stall check after any time \<open>e\<close> of at most 30000 ms, changes
  nothing, so it does not rotate.
\<close>

theorem decode_resets_stall_timer:
  assumes "fst (decodeFrame E frame w) = Some d" and "e \<le> 30000"
  shows "let s' = handleFrame E frame (t, w)
         in lastReadTime (fst s') = now w \<and> now (snd s') = now w \<and>
            stallCheck E' s' = s' \<and>
            stallCheck E' (fst s', elapse e (snd s')) = (fst s', elapse e (snd s'))"
proof -
  let ?s = "handleFrame E frame (t, w)"
  have l: "lastReadTime (fst ?s) = now w" and n: "now (snd ?s) = now w"
    using assms(1) by (simp_all add: handleFrame_decoded enqueueData_rest)
  have "now (elapse e (snd ?s)) - lastReadTime (fst ?s) \<le> 30000"
    using assms(2) l n by (simp add: elapse_def)
  then have later: "stallCheck E' (fst ?s, elapse e (snd ?s)) = (fst ?s, elapse e (snd ?s))"
    by (rule stallCheck_fresh)
  have "now (snd ?s) - lastReadTime (fst ?s) \<le> 30000"
    using l n by simp
  then have "stallCheck E' (fst ?s, snd ?s) = (fst ?s, snd ?s)"
    by (rule stallCheck_fresh)
  then have at_once: "stallCheck E' ?s = ?s" by simp
  from l n later at_once show ?thesis by (simp add: Let_def)
qed

theorem decode_resets_stall_timer_witness:
  "lastReadTime (fst (handleFrame exampleEnv
      \<lparr>getFrameTypeId = FRAME_TYPE_ASCII, frameBytes = [47, 65]\<rparr>
      (exampleTask\<lparr>p1DataQueue := Some 0\<rparr>, elapse 50000 exampleWorld))) = 50000 \<and>
   baudRateIx (fst (stallCheck exampleEnv
     (fst (handleFrame exampleEnv \<lparr>getFrameTypeId = FRAME_TYPE_ASCII, frameBytes = [47, 65]\<rparr>
        (exampleTask\<lparr>p1DataQueue := Some 0\<rparr>, elapse 50000 exampleWorld)),
      elapse 30000 (snd (handleFrame exampleEnv
        \<lparr>getFrameTypeId = FRAME_TYPE_ASCII, frameBytes = [47, 65]\<rparr>
        (exampleTask\<lparr>p1DataQueue := Some 0\<rparr>, elapse 50000 exampleWorld)))))) =
   baudRateIx (fst (handleFrame exampleEnv \<lparr>getFrameTypeId = FRAME_TYPE_ASCII, frameBytes = [47, 65]\<rparr>
        (exampleTask\<lparr>p1DataQueue := Some 0\<rparr>, elapse 50000 exampleWorld)))"
proof -
  have a: "fst (decodeFrame exampleEnv \<lparr>getFrameTypeId = FRAME_TYPE_ASCII, frameBytes = [47, 65]\<rparr>
      (elapse 50000 exampleWorld)) = Some (exampleReading ''ascii'')"
    by (simp add: decodeFrame_def exampleEnv_def)
  have b: "(30000 :: millis_t) \<le> 30000" by simp
  have n: "now (elapse 50000 exampleWorld) = 50000" by (simp add: elapse_def exampleWorld_def)
  from decode_resets_stall_timer [OF a b, of "exampleTask\<lparr>p1DataQueue := Some 0\<rparr>" exampleEnv] n
  show ?thesis by (simp add: Let_def)
qed



end
